theory Spec2Isabelle
  imports Main "HOL-Library.Sublist"
begin

section \<open>Path resolution against a provider schema (cdktf-cli, handlers.ts)\<close>

text \<open>
  The resolver of \<^verbatim>\<open>packages/cdktf-cli/bin/cmds/handlers.ts\<close> takes a dotted path such as
  \<^verbatim>\<open>aws.instance.tags\<close> and walks a Terraform provider schema with it. The functions
  \<^verbatim>\<open>getResourceAtPath\<close>, \<^verbatim>\<open>getBlockTypeAtPath\<close>, \<^verbatim>\<open>getAttributeTypeAtPath\<close>,
  \<^verbatim>\<open>resolveAttribute\<close>, \<^verbatim>\<open>getTypeAtPath\<close> and \<^verbatim>\<open>getDesiredType\<close> are embedded below,
  statement by statement.
\<close>

subsection \<open>JavaScript results\<close>

text \<open>
  A JavaScript function either throws or returns; what it returns may be \<^verbatim>\<open>null\<close> or
  \<^verbatim>\<open>undefined\<close>. The only exception these functions can raise is the \<^verbatim>\<open>TypeError\<close> of a
  property read or method call on \<^verbatim>\<open>undefined\<close>.
\<close>

datatype error = TypeError

datatype 'a maybe = Null | Undefined | Defined 'a

definition absent :: "'a maybe \<Rightarrow> bool" where
  "absent r = (case r of Defined _ \<Rightarrow> False | _ \<Rightarrow> True)"

definition returns_normally :: "error + 'a \<Rightarrow> bool" where
  "returns_normally r = (case r of Inl _ \<Rightarrow> False | Inr _ \<Rightarrow> True)"

subsection \<open>Strings and arrays\<close>

text \<open>\<^verbatim>\<open>s.split(c)\<close> for a one-character separator: never empty, \<^verbatim>\<open>"".split(".")\<close> is \<^verbatim>\<open>[""]\<close>.\<close>

fun split_str :: "char \<Rightarrow> string \<Rightarrow> string list" where
  "split_str c [] = [[]]"
| "split_str c (x # xs) =
     (if x = c then [] # split_str c xs
      else (case split_str c xs of w # ws \<Rightarrow> (x # w) # ws | [] \<Rightarrow> [[x]]))"

text \<open>\<^verbatim>\<open>s.endsWith(t)\<close>.\<close>

definition endsWith :: "string \<Rightarrow> string \<Rightarrow> bool" where
  "endsWith s t = (length t \<le> length s \<and> drop (length s - length t) s = t)"

text \<open>\<^verbatim>\<open>s.replace(pat, rep)\<close> with a string pattern: only the first occurrence is replaced.\<close>

fun replace :: "string \<Rightarrow> string \<Rightarrow> string \<Rightarrow> string" where
  "replace pat rep [] = (if pat = [] then rep else [])"
| "replace pat rep (x # xs) =
     (if take (length pat) (x # xs) = pat then rep @ drop (length pat) (x # xs)
      else x # replace pat rep xs)"

text \<open>
  \<^verbatim>\<open>parts.shift()\<close>: the removed first element and the array that is left; on the empty
  array the result is \<^verbatim>\<open>undefined\<close> (here \<open>None\<close>) and the array stays empty.
\<close>

definition shift :: "'a list \<Rightarrow> 'a option \<times> 'a list" where
  "shift xs = (case xs of [] \<Rightarrow> (None, []) | x # rest \<Rightarrow> (Some x, rest))"

text \<open>
  A possibly undefined string where JavaScript converts it to a string: inside a template
  literal and as a property key (\<^verbatim>\<open>o.hasOwnProperty(undefined)\<close> asks for the key
  \<^verbatim>\<open>"undefined"\<close>).
\<close>

definition str :: "string option \<Rightarrow> string" where
  "str s = (case s of None \<Rightarrow> ''undefined'' | Some t \<Rightarrow> t)"

text \<open>
  The objects of a schema are plain objects, as \<^verbatim>\<open>JSON.parse\<close> builds them: an
  association list of their own properties over the prototype \<^verbatim>\<open>Object.prototype\<close>.
  \<open>own\<close> is the guarded read \<^verbatim>\<open>o && o.hasOwnProperty(k) ... o[k]\<close> of the walkers: own
  properties only, on an object that may itself be missing.
\<close>

definition own :: "('k \<times> 'v) list option \<Rightarrow> 'k \<Rightarrow> 'v option" where
  "own obj k = (case obj of None \<Rightarrow> None | Some entries \<Rightarrow> map_of entries k)"

text \<open>
  A plain read \<^verbatim>\<open>o[k]\<close> finds an own property first and then the properties every
  object inherits from \<^verbatim>\<open>Object.prototype\<close>: eleven functions and, under \<^verbatim>\<open>__proto__\<close>,
  the prototype itself. \<open>Proto k\<close> stands for the inherited value under the name \<open>k\<close>.
  Each of them is truthy, is neither a string nor an array, and has none of the properties
  the resolver reads (\<^verbatim>\<open>provider\<close>, \<^verbatim>\<open>resource_schemas\<close>, \<^verbatim>\<open>data_source_schemas\<close>,
  \<^verbatim>\<open>block\<close>, \<^verbatim>\<open>type\<close>, \<^verbatim>\<open>version\<close>).
\<close>

definition object_prototype :: "string list" where
  "object_prototype =
    [''constructor'', ''__defineGetter__'', ''__defineSetter__'', ''hasOwnProperty'',
     ''__lookupGetter__'', ''__lookupSetter__'', ''isPrototypeOf'', ''propertyIsEnumerable'',
     ''toString'', ''valueOf'', ''__proto__'', ''toLocaleString'']"

datatype 'a property = Own 'a | Proto string

definition read :: "(string \<times> 'v) list \<Rightarrow> string \<Rightarrow> 'v property option" where
  "read obj k =
    (case map_of obj k of
       Some v \<Rightarrow> Some (Own v)
     | None \<Rightarrow> (if k \<in> set object_prototype then Some (Proto k) else None))"

subsection \<open>The provider schema\<close>

text \<open>
  Modelled from the spec: the types \<^verbatim>\<open>ProviderSchema\<close>, \<^verbatim>\<open>Schema\<close>, \<^verbatim>\<open>BlockType\<close>,
  \<^verbatim>\<open>Attribute\<close> and \<^verbatim>\<open>AttributeType\<close>, which \<^verbatim>\<open>handlers.ts\<close> imports from
  \<^verbatim>\<open>@cdktf/provider-generator\<close>. Their shape follows the data model of the specification
  and the property paths the source reads (\<^verbatim>\<open>schema.provider_schemas\<close>,
  \<^verbatim>\<open>provider.provider\<close>, \<^verbatim>\<open>resource.block.attributes\<close>,
  \<^verbatim>\<open>currentSchema.block.block_types\<close>, \<^verbatim>\<open>attribute.type\<close>).

  \<^verbatim>\<open>AttributeType\<close> is a primitive tag (a string), a pair \<^verbatim>\<open>[kind, element]\<close> with kind
  \<^verbatim>\<open>"list"\<close>, \<^verbatim>\<open>"set"\<close> or \<^verbatim>\<open>"map"\<close>, or a pair \<^verbatim>\<open>["object", members]\<close>. The last two are
  the values for which \<^verbatim>\<open>Array.isArray\<close> holds.
\<close>

datatype kind = KList | KSet | KMap

datatype attribute_type =
    Primitive string
  | Collection kind attribute_type
  | Object "(string \<times> attribute_type) list"

definition isArray :: "attribute_type \<Rightarrow> bool" where
  "isArray t = (case t of Primitive _ \<Rightarrow> False | _ \<Rightarrow> True)"

text \<open>
  What may stand in the \<^verbatim>\<open>type\<close> field of a returned attribute: an attribute type, or the
  member table of an object descriptor (its component at index 1).
\<close>

datatype type_value = Type attribute_type | Members "(string \<times> attribute_type) list"

record 't attribute =
  type :: 't
  required :: bool
  optional :: bool
  computed :: bool

text \<open>\<^verbatim>\<open>{ ...attribute, type: v }\<close>: a copy with the type replaced.\<close>

definition with_type :: "'a attribute \<Rightarrow> 'b \<Rightarrow> 'b attribute" where
  "with_type a v =
     \<lparr>type = v, required = required a, optional = optional a, computed = computed a\<rparr>"

definition declared :: "attribute_type attribute \<Rightarrow> type_value attribute" where
  "declared a = with_type a (Type (type a))"

text \<open>
  \<^verbatim>\<open>Block\<close> and \<^verbatim>\<open>BlockType\<close>. The walkers of the source test \<^verbatim>\<open>block\<close>,
  \<^verbatim>\<open>block_types\<close> and \<^verbatim>\<open>attributes\<close> before they read them, so each may be missing
  here. A provider entry always has \<^verbatim>\<open>resource_schemas\<close> and \<^verbatim>\<open>data_source_schemas\<close>;
  its \<^verbatim>\<open>provider\<close> block and the \<^verbatim>\<open>version\<close> of a schema are optional, and the source
  reads \<^verbatim>\<open>schema.provider_schemas\<close> with \<^verbatim>\<open>?.\<close>.
\<close>

datatype block =
  Block (attributes: "(string \<times> attribute_type attribute) list option")
        (block_types: "(string \<times> block_type) list option")
and block_type =
  BlockType (nesting_mode: string) (block: "block option") (max_items: "nat option")

record schema =
  version :: "nat option"
  schema_block :: "block option"

record provider =
  provider :: "schema option"
  resource_schemas :: "(string \<times> schema) list"
  data_source_schemas :: "(string \<times> schema) list"

record provider_schema =
  provider_schemas :: "(string \<times> provider) list option"

record scope =
  providerSchema :: provider_schema

text \<open>
  \<^verbatim>\<open>currentSchema\<close> in the walkers is the resource at first and a block type afterwards.
  The resource is a schema, or an inherited value when \<^verbatim>\<open>resources[fullResourceName]\<close>
  found none of its own; a schema and a block type have a \<^verbatim>\<open>block\<close>, an inherited value
  has not.
\<close>

datatype node = NSchema schema | NBlock block_type | NProto string

definition node_block :: "node \<Rightarrow> block option" where
  "node_block n =
    (case n of NSchema s \<Rightarrow> schema_block s | NBlock b \<Rightarrow> block b | NProto k \<Rightarrow> None)"

definition node_of :: "schema property \<Rightarrow> node" where
  "node_of p = (case p of Own s \<Rightarrow> NSchema s | Proto k \<Rightarrow> NProto k)"

text \<open>\<^verbatim>\<open>cs && cs.block && cs.block.block_types\<close> and the same chain for \<^verbatim>\<open>attributes\<close>.\<close>

definition node_block_types :: "node option \<Rightarrow> (string \<times> block_type) list option" where
  "node_block_types cs = Option.bind (Option.bind cs node_block) block_types"

definition node_attributes ::
  "node option \<Rightarrow> (string \<times> attribute_type attribute) list option" where
  "node_attributes cs = Option.bind (Option.bind cs node_block) attributes"

text \<open>
  \<^verbatim>\<open>getFullProviderName(schema, providerName)\<close> is imported from \<^verbatim>\<open>./provider\<close>, which
  is not among the sources: every function below takes it as its first argument. It
  answers a schema key or nothing.
\<close>

type_synonym resolver = "provider_schema \<Rightarrow> string \<Rightarrow> string option"

subsection \<open>getResourceAtPath\<close>

text \<open>
  After the length check at least one segment is left when \<^verbatim>\<open>providerName\<close> is shifted,
  so \<^verbatim>\<open>providerName\<close> is a string and the branch for an undefined one is never taken.
  \<^verbatim>\<open>resourceName\<close> is undefined for a path \<^verbatim>\<open>data.x\<close>, and \<^verbatim>\<open>resourceName.endsWith\<close>
  then throws. The empty string is falsy, so \<^verbatim>\<open>!fullProviderName\<close> also holds for a
  resolver that answers \<^verbatim>\<open>""\<close>.

  \<^verbatim>\<open>schema.provider_schemas?.[fullProviderName]\<close> and \<^verbatim>\<open>resources[fullResourceName]\<close>
  are plain reads. On an inherited value \<^verbatim>\<open>provider.provider\<close> is \<^verbatim>\<open>undefined\<close>, and so
  are \<^verbatim>\<open>provider.resource_schemas\<close> and \<^verbatim>\<open>provider.data_source_schemas\<close>, where
  \<^verbatim>\<open>resources[fullResourceName]\<close> then throws.
\<close>

definition getResourceAtPath ::
  "resolver \<Rightarrow> provider_schema \<Rightarrow> string \<Rightarrow> error + (node option \<times> string list) maybe" where
  "getResourceAtPath getFullProviderName schema path =
    (let parts = split_str CHR ''.'' path in
     if length parts < 2 then Inr Null
     else
      (let isDataSource = (hd parts = ''data'');
           parts = (if isDataSource then snd (shift parts) else parts);
           (providerName, parts) = shift parts;
           (resourceName, parts) = shift parts
       in
        (case providerName of
           None \<Rightarrow> Inl TypeError
         | Some providerName \<Rightarrow>
            (let fullProviderName = getFullProviderName schema providerName;
                 fullResourceName = providerName @ ''_'' @ str resourceName
             in
              (case fullProviderName of
                 None \<Rightarrow> Inr Null
               | Some fullProviderName \<Rightarrow>
                  (if fullProviderName = [] then Inr Null
                   else
                    (case Option.bind (provider_schemas schema)
                            (\<lambda>entries. read entries fullProviderName) of
                       None \<Rightarrow> Inr Null
                     | Some provider_entry \<Rightarrow>
                        (case resourceName of
                           None \<Rightarrow> Inl TypeError
                         | Some resourceName \<Rightarrow>
                            (if endsWith resourceName ''Provider''
                             then
                              (case provider_entry of
                                 Own entry \<Rightarrow>
                                   Inr (Defined (map_option NSchema (provider entry), parts))
                               | Proto k \<Rightarrow> Inr (Defined (None, parts)))
                             else
                              (case provider_entry of
                                 Proto k \<Rightarrow> Inl TypeError
                               | Own entry \<Rightarrow>
                                  (let resources =
                                         (if isDataSource then data_source_schemas entry
                                          else resource_schemas entry)
                                   in
                                    (case read resources fullResourceName of
                                       None \<Rightarrow> Inr Null
                                     | Some resource \<Rightarrow>
                                        (if length parts = 0 then Inr Null
                                         else Inr (Defined (Some (node_of resource),
                                                            parts)))))))))))))))"

subsection \<open>getBlockTypeAtPath\<close>

text \<open>
  The \<^verbatim>\<open>do ... while (parts.length > 0)\<close> loop: the body runs before the test, also on an
  empty \<^verbatim>\<open>parts\<close>, where \<^verbatim>\<open>parts.shift()\<close> is \<^verbatim>\<open>undefined\<close>.
\<close>

function getBlockTypeAtPath_loop :: "node option \<Rightarrow> string list \<Rightarrow> node maybe" where
  "getBlockTypeAtPath_loop currentSchema parts =
    (let (part, parts') = shift parts in
      (case own (node_block_types currentSchema) (str part) of
         None \<Rightarrow> Null
       | Some b \<Rightarrow>
          (if length parts' > 0 then getBlockTypeAtPath_loop (Some (NBlock b)) parts'
           else Defined (NBlock b))))"
  by pat_completeness auto
termination
  by (relation "measure (\<lambda>(cs, parts). length parts)")
     (auto simp: shift_def split: list.splits)

definition getBlockTypeAtPath ::
  "resolver \<Rightarrow> provider_schema \<Rightarrow> string \<Rightarrow> error + node maybe" where
  "getBlockTypeAtPath getFullProviderName schema path =
    (case getResourceAtPath getFullProviderName schema path of
       Inl e \<Rightarrow> Inl e
     | Inr (Defined (resource, parts)) \<Rightarrow> Inr (getBlockTypeAtPath_loop resource parts)
     | Inr _ \<Rightarrow> Inr Null)"

subsection \<open>getAttributeTypeAtPath\<close>

text \<open>
  \<^verbatim>\<open>resource.block.attributes\<close> is read before the segment count is checked and without
  a guard: it throws when \<^verbatim>\<open>resource\<close> or its \<^verbatim>\<open>block\<close> is undefined, and so does
  \<^verbatim>\<open>attributes[attributeName]\<close> when \<^verbatim>\<open>attributes\<close> is. \<^verbatim>\<open>attributes[attributeName]\<close>
  is a plain read; an inherited value has no \<^verbatim>\<open>type\<close>, so it fails the test
  \<^verbatim>\<open>Array.isArray(attribute.type)\<close> and is returned as it is.
\<close>

definition getAttributeTypeAtPath ::
  "resolver \<Rightarrow> provider_schema \<Rightarrow> string
     \<Rightarrow> error + type_value attribute property maybe" where
  "getAttributeTypeAtPath getFullProviderName schema path =
    (case getResourceAtPath getFullProviderName schema path of
       Inl e \<Rightarrow> Inl e
     | Inr (Defined (resource, parts)) \<Rightarrow>
        (case Option.bind resource node_block of
           None \<Rightarrow> Inl TypeError
         | Some resource_block \<Rightarrow>
            (let attributes' = attributes resource_block in
              (if length parts \<noteq> 1 then Inr Null
               else
                (let attributeName = replace ''[]'' [] (parts ! 0) in
                  (case attributes' of
                     None \<Rightarrow> Inl TypeError
                   | Some entries \<Rightarrow>
                      (case read entries attributeName of
                         None \<Rightarrow> Inr Undefined
                       | Some (Proto k) \<Rightarrow> Inr (Defined (Proto k))
                       | Some (Own attribute) \<Rightarrow>
                          (if isArray (type attribute) \<and> isArray (type attribute)
                              \<and> endsWith path ''[]''
                           then
                            (case type attribute of
                               Collection k element \<Rightarrow>
                                 Inr (Defined (Own (with_type attribute (Type element))))
                             | Object members \<Rightarrow>
                                 Inr (Defined (Own (with_type attribute (Members members))))
                             | Primitive s \<Rightarrow> Inr (Defined (Own (declared attribute))))
                           else Inr (Defined (Own (declared attribute))))))))))
     | Inr _ \<Rightarrow> Inr Null)"

subsection \<open>resolveAttribute\<close>

definition of_option :: "'a option \<Rightarrow> 'a maybe" where
  "of_option x = (case x of None \<Rightarrow> Undefined | Some v \<Rightarrow> Defined v)"

text \<open>
  \<^verbatim>\<open>currentAtt\<close> is an attribute type, \<^verbatim>\<open>undefined\<close>, or an inherited value: the member
  lookup \<^verbatim>\<open>currentAtt[1][1][part]\<close> is a plain read. The test of the loop body holds
  exactly for \<^verbatim>\<open>["set", ["object", m]]\<close> and \<^verbatim>\<open>["list", ["object", m]]\<close>.
\<close>

function resolveAttribute_loop ::
  "attribute_type property option \<Rightarrow> string list \<Rightarrow> attribute_type property maybe" where
  "resolveAttribute_loop currentAtt parts =
    (let (part, parts') = shift parts in
      (case currentAtt of
         Some (Own (Collection k (Object members))) \<Rightarrow>
          (if k = KSet \<or> k = KList
           then
            (let x = read members (str part) in
              (if length parts' > 0 then resolveAttribute_loop x parts'
               else if length parts' = 0 then of_option x
               else Null))
           else Null)
       | _ \<Rightarrow> Null))"
  by pat_completeness auto
termination
  by (relation "measure (\<lambda>(a, parts). length parts)")
     (auto simp: shift_def split: list.splits)

definition resolveAttribute ::
  "attribute_type attribute \<Rightarrow> string list \<Rightarrow> attribute_type property maybe" where
  "resolveAttribute att parts =
    (if length parts = 0 then Defined (Own (type att))
     else resolveAttribute_loop (Some (Own (type att))) parts)"

subsection \<open>getTypeAtPath\<close>

text \<open>
  What \<^verbatim>\<open>getTypeAtPath\<close> returns when it is not \<^verbatim>\<open>null\<close> or \<^verbatim>\<open>undefined\<close>: the current
  node, an attribute type, or the inherited value that \<^verbatim>\<open>resolveAttribute\<close> came upon.
\<close>

datatype resolved = Node node | AttrType attribute_type | Inherited string

text \<open>
  \<^verbatim>\<open>continue\<close> inside \<^verbatim>\<open>do ... while\<close> jumps to the test, so after a step into a block the
  loop goes on only while segments are left; the \<^verbatim>\<open>return currentSchema\<close> after the loop
  is reached from there alone.
\<close>

function getTypeAtPath_loop :: "node option \<Rightarrow> string list \<Rightarrow> resolved maybe" where
  "getTypeAtPath_loop currentSchema parts =
    (let (part, parts') = shift parts in
      (case own (node_block_types currentSchema) (str part) of
         Some b \<Rightarrow>
          (if length parts' > 0 then getTypeAtPath_loop (Some (NBlock b)) parts'
           else Defined (Node (NBlock b)))
       | None \<Rightarrow>
          (case own (node_attributes currentSchema) (str part) of
             Some att \<Rightarrow>
               (case resolveAttribute att parts' of
                  Null \<Rightarrow> Null
                | Undefined \<Rightarrow> Undefined
                | Defined (Own t) \<Rightarrow> Defined (AttrType t)
                | Defined (Proto k) \<Rightarrow> Defined (Inherited k))
           | None \<Rightarrow> Null)))"
  by pat_completeness auto
termination
  by (relation "measure (\<lambda>(cs, parts). length parts)")
     (auto simp: shift_def split: list.splits)

definition getTypeAtPath ::
  "resolver \<Rightarrow> provider_schema \<Rightarrow> string \<Rightarrow> error + resolved maybe" where
  "getTypeAtPath getFullProviderName schema path =
    (case getResourceAtPath getFullProviderName schema path of
       Inl e \<Rightarrow> Inl e
     | Inr (Defined (resource, parts)) \<Rightarrow> Inr (getTypeAtPath_loop resource parts)
     | Inr _ \<Rightarrow> Inr Null)"

subsection \<open>getDesiredType\<close>

text \<open>
  \<^verbatim>\<open>getDesiredType\<close> has five exits, tested in this order: the type is not defined, it
  is a string, it is an array, it has a \<^verbatim>\<open>version\<close>, anything else. \<^verbatim>\<open>!attributeType\<close>
  holds for \<^verbatim>\<open>null\<close>, \<^verbatim>\<open>undefined\<close> and the empty string. The last exit also writes
  the value to the console, which is not part of the returned value.
  \<open>getDesiredType_branch\<close> names the exit taken, \<open>getDesiredType\<close> is the function.
\<close>

datatype branch = NotDefined | PrimitiveType | ComplexType | IsSchema | IsBlockType

definition falsy :: "resolved maybe \<Rightarrow> bool" where
  "falsy v =
    (case v of Defined (AttrType (Primitive s)) \<Rightarrow> s = [] | Defined _ \<Rightarrow> False | _ \<Rightarrow> True)"

definition has_version :: "node \<Rightarrow> bool" where
  "has_version n =
    (case n of NSchema s \<Rightarrow> version s \<noteq> None | NBlock b \<Rightarrow> False | NProto k \<Rightarrow> False)"

definition getDesiredType_branch :: "resolved maybe \<Rightarrow> branch" where
  "getDesiredType_branch attributeType =
    (if falsy attributeType then NotDefined
     else
      (case attributeType of
         Defined (AttrType (Primitive s)) \<Rightarrow> PrimitiveType
       | Defined (AttrType t) \<Rightarrow> ComplexType
       | Defined (Node n) \<Rightarrow> (if has_version n then IsSchema else IsBlockType)
       | Defined (Inherited k) \<Rightarrow> IsBlockType
       | _ \<Rightarrow> NotDefined))"

definition getDesiredType :: "resolver \<Rightarrow> scope \<Rightarrow> string \<Rightarrow> error + attribute_type" where
  "getDesiredType getFullProviderName scope path =
    (case getTypeAtPath getFullProviderName (providerSchema scope) path of
       Inl e \<Rightarrow> Inl e
     | Inr attributeType \<Rightarrow>
        (if falsy attributeType then Inr (Primitive ''dynamic'')
         else
          (case attributeType of
             Defined (AttrType (Primitive s)) \<Rightarrow> Inr (Primitive s)
           | Defined (AttrType t) \<Rightarrow> Inr t
           | Defined (Node n) \<Rightarrow>
              (if has_version n then Inr (Primitive ''dynamic'')
               else Inr (Primitive ''dynamic''))
           | Defined (Inherited k) \<Rightarrow> Inr (Primitive ''dynamic'')
           | _ \<Rightarrow> Inr (Primitive ''dynamic''))))"

subsection \<open>A sample schema\<close>

text \<open>
  Two resolvers to run the functions with: \<open>resolve_by_last_component\<close> answers the first
  schema key whose last \<^verbatim>\<open>/\<close>-component is the short name, \<open>resolve_always_aws\<close> answers
  the key of the aws provider whatever it is asked.
\<close>

definition resolve_by_last_component :: resolver where
  "resolve_by_last_component schema providerName =
    (case provider_schemas schema of
       None \<Rightarrow> None
     | Some entries \<Rightarrow>
         find (\<lambda>k. last (split_str CHR ''/'' k) = providerName) (map fst entries))"

definition aws_key :: string where
  "aws_key = ''registry.terraform.io/hashicorp/aws''"

definition resolve_always_aws :: resolver where
  "resolve_always_aws schema providerName = Some aws_key"

definition attr :: "attribute_type \<Rightarrow> attribute_type attribute" where
  "attr t = \<lparr>type = t, required = False, optional = True, computed = False\<rparr>"

definition ingress_type :: attribute_type where
  "ingress_type =
    Collection KSet (Object [(''cidr_blocks'', Collection KList (Primitive ''string'')),
                            (''name'', Primitive ''string'')])"

definition ebs_block_device :: block_type where
  "ebs_block_device =
    BlockType ''list''
      (Some (Block (Some [(''volume_size'', attr (Primitive ''number''))]) None)) None"

definition aws_instance :: schema where
  "aws_instance =
    \<lparr>version = Some 1,
     schema_block = Some (Block
       (Some [(''tags'', attr (Collection KMap (Primitive ''string''))),
              (''ingress'', attr ingress_type),
              (''ebs_block_device'', attr (Primitive ''string'')),
              (''ami'', attr (Primitive ''string''))])
       (Some [(''ebs_block_device'', ebs_block_device)]))\<rparr>"

definition aws_ami :: schema where
  "aws_ami =
    \<lparr>version = Some 0,
     schema_block = Some (Block (Some [(''id'', attr (Primitive ''string''))]) None)\<rparr>"

definition aws_config :: schema where
  "aws_config =
    \<lparr>version = Some 0,
     schema_block = Some (Block (Some [(''region'', attr (Primitive ''string''))]) (Some []))\<rparr>"

definition aws_provider :: provider where
  "aws_provider =
    \<lparr>provider = Some aws_config,
     resource_schemas = [(''aws_instance'', aws_instance)],
     data_source_schemas = [(''aws_ami'', aws_ami)]\<rparr>"

definition null_provider :: provider where
  "null_provider = \<lparr>provider = None, resource_schemas = [], data_source_schemas = []\<rparr>"

definition sample_schema :: provider_schema where
  "sample_schema =
    \<lparr>provider_schemas = Some [(aws_key, aws_provider),
                              (''registry.terraform.io/hashicorp/null'', null_provider)]\<rparr>"

definition sample_scope :: scope where
  "sample_scope = \<lparr>providerSchema = sample_schema\<rparr>"

text \<open>A schema whose only provider is itself called \<^verbatim>\<open>data\<close>.\<close>

definition data_named_schema :: provider_schema where
  "data_named_schema = \<lparr>provider_schemas = Some [(''example.com/acme/data'', aws_provider)]\<rparr>"

subsection \<open>Notions used to state the properties\<close>

text \<open>
  The member table of a type that is a list or a set of objects; no other type can be
  indexed by a path segment.
\<close>

fun members_of :: "attribute_type \<Rightarrow> (string \<times> attribute_type) list option" where
  "members_of (Collection KList (Object members)) = Some members"
| "members_of (Collection KSet (Object members)) = Some members"
| "members_of t = None"

text \<open>
  Indexing into an attribute type as the specification words it: with no segment left the
  type itself; with a segment left the type has to be a list or set of objects, the segment
  is looked up among the members of the object, and the rest of the segments index into
  what was found.
\<close>

fun index_into :: "attribute_type option \<Rightarrow> string list \<Rightarrow> attribute_type maybe" where
  "index_into t [] = of_option t"
| "index_into t (name # rest) =
     (case Option.bind t members_of of
        None \<Rightarrow> Null
      | Some members \<Rightarrow> index_into (map_of members name) rest)"

text \<open>
  The nodes below a root: the root, and every block type held in the \<^verbatim>\<open>block_types\<close>
  of a node below the root.
\<close>

inductive_set nodes_below :: "node \<Rightarrow> node set" for root :: node where
  root: "root \<in> nodes_below root"
| nested: "n \<in> nodes_below root \<Longrightarrow> own (node_block_types (Some n)) name = Some b
           \<Longrightarrow> NBlock b \<in> nodes_below root"

section \<open>Properties\<close>

declare getBlockTypeAtPath_loop.simps [simp del]
declare resolveAttribute_loop.simps [simp del]
declare getTypeAtPath_loop.simps [simp del]

subsection \<open>Splitting, suffixes and reads\<close>

lemma split_str_nonempty: "split_str c s \<noteq> []"
  by (induction s) (auto split: list.splits)

lemma split_str_no_sep: "c \<notin> set s \<Longrightarrow> split_str c s = [s]"
  by (induction s) auto

lemma split_str_single: "length (split_str c s) < 2 \<longleftrightarrow> c \<notin> set s"
proof (induction s)
  case Nil
  then show ?case by simp
next
  case (Cons x xs)
  obtain w ws where sp: "split_str c xs = w # ws"
    using split_str_nonempty [of c xs] by (cases "split_str c xs") auto
  show ?case
    using Cons sp by (auto simp: split_str_no_sep)
qed

lemma split_str_append: "c \<notin> set p \<Longrightarrow> split_str c (p @ c # rest) = p # split_str c rest"
  by (induction p) auto

lemma split_two_segments:
  "CHR ''.'' \<notin> set p \<Longrightarrow> CHR ''.'' \<notin> set r \<Longrightarrow> split_str CHR ''.'' (p @ CHR ''.'' # r) = [p, r]"
  by (simp add: split_str_append split_str_no_sep)

lemma endsWith_suffix: "endsWith s t = suffix t s"
proof
  assume "endsWith s t"
  then have "s = take (length s - length t) s @ t"
    by (metis append_take_drop_id endsWith_def)
  then show "suffix t s" by (metis suffixI)
next
  assume "suffix t s"
  then obtain zs where "s = zs @ t" by (auto simp: suffix_def)
  then show "endsWith s t" by (simp add: endsWith_def)
qed

lemma read_own: "map_of obj k = Some v \<Longrightarrow> read obj k = Some (Own v)"
  by (simp add: read_def)

lemma read_not_inherited:
  "k \<notin> set object_prototype \<Longrightarrow> read obj k = map_option Own (map_of obj k)"
  by (simp add: read_def split: option.splits)

lemma read_provider_schemas:
  "own (provider_schemas schema) key = Some entry \<Longrightarrow>
   Option.bind (provider_schemas schema) (\<lambda>entries. read entries key) = Some (Own entry)"
  by (auto simp: own_def read_def split: option.splits)

text \<open>
  When \<^verbatim>\<open>providerName\<close> is shifted off in \<^verbatim>\<open>getResourceAtPath\<close> a segment is there.
\<close>

lemma providerName_defined:
  "2 \<le> length parts \<Longrightarrow>
   fst (shift (if hd parts = ''data'' then snd (shift parts) else parts)) \<noteq> None"
  by (cases parts; cases "tl parts") (auto simp: shift_def)

subsection \<open>Paths that are too short\<close>

text \<open>
  Claim C9. A path that splits on \<^verbatim>\<open>.\<close> into fewer than two segments is rejected by the
  first check of \<^verbatim>\<open>getResourceAtPath\<close>: that function, \<^verbatim>\<open>getBlockTypeAtPath\<close>,
  \<^verbatim>\<open>getAttributeTypeAtPath\<close> and \<^verbatim>\<open>getTypeAtPath\<close> all return \<^verbatim>\<open>null\<close>, and
  \<^verbatim>\<open>getDesiredType\<close> returns \<^verbatim>\<open>"dynamic"\<close>, for every schema and resolver.
\<close>

theorem short_path_absent:
  assumes "length (split_str CHR ''.'' path) < 2"
  shows "getResourceAtPath g schema path = Inr Null
       \<and> getBlockTypeAtPath g schema path = Inr Null
       \<and> getAttributeTypeAtPath g schema path = Inr Null
       \<and> getTypeAtPath g schema path = Inr Null
       \<and> getDesiredType g sc path = Inr (Primitive ''dynamic'')"
proof -
  have r: "getResourceAtPath g s path = Inr Null" for s
    using assms by (simp add: getResourceAtPath_def)
  have t: "getTypeAtPath g s path = Inr Null" for s
    by (simp add: getTypeAtPath_def r)
  show ?thesis
    by (simp add: r t getBlockTypeAtPath_def getAttributeTypeAtPath_def getDesiredType_def
        falsy_def)
qed

theorem short_path_absent_witness:
  "length (split_str CHR ''.'' ''aws_instance'') < 2
   \<and> getResourceAtPath resolve_by_last_component sample_schema ''aws_instance'' = Inr Null
   \<and> getBlockTypeAtPath resolve_by_last_component sample_schema ''aws_instance'' = Inr Null
   \<and> getAttributeTypeAtPath resolve_by_last_component sample_schema ''aws_instance'' = Inr Null
   \<and> getTypeAtPath resolve_by_last_component sample_schema ''aws_instance'' = Inr Null
   \<and> getDesiredType resolve_by_last_component sample_scope ''aws_instance''
       = Inr (Primitive ''dynamic'')"
proof -
  have h: "length (split_str CHR ''.'' ''aws_instance'') < 2" by simp
  show ?thesis
    using h short_path_absent [OF h, of resolve_by_last_component sample_schema sample_scope]
    by simp
qed

subsection \<open>The loops, one segment at a time\<close>

lemma getBlockTypeAtPath_loop_Nil [simp]:
  "getBlockTypeAtPath_loop cs [] =
    (case own (node_block_types cs) ''undefined'' of
       None \<Rightarrow> Null | Some b \<Rightarrow> Defined (NBlock b))"
  by (subst getBlockTypeAtPath_loop.simps) (simp add: shift_def str_def split: option.splits)

lemma getBlockTypeAtPath_loop_Cons [simp]:
  "getBlockTypeAtPath_loop cs (p # ps) =
    (case own (node_block_types cs) p of
       None \<Rightarrow> Null
     | Some b \<Rightarrow> (if ps \<noteq> [] then getBlockTypeAtPath_loop (Some (NBlock b)) ps
                 else Defined (NBlock b)))"
  by (subst getBlockTypeAtPath_loop.simps) (simp add: shift_def str_def split: option.splits)

lemma resolveAttribute_loop_not_own [simp]:
  "resolveAttribute_loop None parts = Null"
  "resolveAttribute_loop (Some (Proto k)) parts = Null"
  by (subst resolveAttribute_loop.simps, simp add: shift_def split: prod.splits)+

lemma resolveAttribute_loop_Cons:
  "resolveAttribute_loop (Some (Own ty)) (p # ps) =
    (case members_of ty of
       None \<Rightarrow> Null
     | Some members \<Rightarrow>
        (if ps \<noteq> [] then resolveAttribute_loop (read members p) ps
         else of_option (read members p)))"
  by (subst resolveAttribute_loop.simps, cases ty rule: members_of.cases)
     (simp_all add: shift_def str_def split: attribute_type.splits)

lemma resolveAttribute_Nil [simp]: "resolveAttribute att [] = Defined (Own (type att))"
  by (simp add: resolveAttribute_def)

lemma resolveAttribute_Cons:
  "resolveAttribute att (name # rest) =
    (case members_of (type att) of
       None \<Rightarrow> Null
     | Some members \<Rightarrow>
        (case read members name of
           None \<Rightarrow> (if rest = [] then Undefined else Null)
         | Some (Proto k) \<Rightarrow> (if rest = [] then Defined (Proto k) else Null)
         | Some (Own t) \<Rightarrow> resolveAttribute (att\<lparr>type := t\<rparr>) rest))"
  by (cases rest)
     (simp_all add: resolveAttribute_def resolveAttribute_loop_Cons of_option_def
        split: option.splits property.splits)

lemma getTypeAtPath_loop_Nil [simp]:
  "getTypeAtPath_loop cs [] =
    (case own (node_block_types cs) ''undefined'' of
       Some b \<Rightarrow> Defined (Node (NBlock b))
     | None \<Rightarrow>
        (case own (node_attributes cs) ''undefined'' of
           Some att \<Rightarrow> Defined (AttrType (type att))
         | None \<Rightarrow> Null))"
  by (subst getTypeAtPath_loop.simps)
     (simp add: shift_def str_def split: option.splits)

lemma getTypeAtPath_loop_Cons [simp]:
  "getTypeAtPath_loop cs (p # ps) =
    (case own (node_block_types cs) p of
       Some b \<Rightarrow> (if ps \<noteq> [] then getTypeAtPath_loop (Some (NBlock b)) ps
                 else Defined (Node (NBlock b)))
     | None \<Rightarrow>
        (case own (node_attributes cs) p of
           Some att \<Rightarrow>
             (case resolveAttribute att ps of
                Null \<Rightarrow> Null
              | Undefined \<Rightarrow> Undefined
              | Defined (Own t) \<Rightarrow> Defined (AttrType t)
              | Defined (Proto k) \<Rightarrow> Defined (Inherited k))
         | None \<Rightarrow> Null))"
  by (subst getTypeAtPath_loop.simps) (simp add: shift_def str_def split: option.splits)

lemma getTypeAtPath_loop_undefined [simp]: "getTypeAtPath_loop None parts = Null"
  by (cases parts) (simp_all add: own_def node_block_types_def node_attributes_def)

subsection \<open>Indexing into an attribute type\<close>

text \<open>
  As long as no segment is a name of \<^verbatim>\<open>Object.prototype\<close>, \<^verbatim>\<open>resolveAttribute\<close> computes
  \<open>index_into\<close>: the declared type for no segment, \<^verbatim>\<open>null\<close> where a segment meets a type
  that is not a list or set of objects, the member's type otherwise, and \<^verbatim>\<open>undefined\<close> for
  an unknown last member.
\<close>

lemma resolveAttribute_loop_index_into:
  "parts \<noteq> [] \<Longrightarrow> set parts \<inter> set object_prototype = {} \<Longrightarrow>
   resolveAttribute_loop (map_option Own t) parts = map_maybe Own (index_into t parts)"
proof (induction parts arbitrary: t)
  case Nil
  then show ?case by simp
next
  case (Cons p ps)
  then have p: "p \<notin> set object_prototype"
    and ps: "set ps \<inter> set object_prototype = {}"
    by auto
  show ?case
  proof (cases t)
    case None
    then show ?thesis by simp
  next
    case (Some ty)
    show ?thesis
    proof (cases ps)
      case Nil
      then show ?thesis
        using Some p
        by (simp add: resolveAttribute_loop_Cons read_not_inherited of_option_def
            split: option.splits)
    next
      case (Cons q qs)
      then have "ps \<noteq> []" by simp
      then show ?thesis
        using Some p ps Cons.IH
        by (simp add: resolveAttribute_loop_Cons read_not_inherited split: option.splits)
    qed
  qed
qed

lemma resolveAttribute_index_into:
  "set parts \<inter> set object_prototype = {} \<Longrightarrow>
   resolveAttribute att parts = map_maybe Own (index_into (Some (type att)) parts)"
  using resolveAttribute_loop_index_into [of parts "Some (type att)"]
  by (cases parts) (simp_all add: resolveAttribute_def of_option_def)

text \<open>
  Claim C4 says that \<^verbatim>\<open>resolveAttribute\<close> answers \<^verbatim>\<open>undefined\<close> for an unknown member
  name with no further segment. For the declared type
  \<^verbatim>\<open>["list", ["object", {"name": "string"}]]\<close> the segment \<^verbatim>\<open>name\<close> gives \<^verbatim>\<open>"string"\<close> and
  the unknown segment \<^verbatim>\<open>size\<close> gives \<^verbatim>\<open>undefined\<close>, but the unknown segment
  \<^verbatim>\<open>constructor\<close> gives the function inherited from \<^verbatim>\<open>Object.prototype\<close>: the member
  lookup is a plain read.
\<close>

theorem member_lookup_inherited:
  "resolveAttribute (attr (Collection KList (Object [(''name'', Primitive ''string'')])))
     [''constructor''] = Defined (Proto ''constructor'')
   \<and> resolveAttribute (attr (Collection KList (Object [(''name'', Primitive ''string'')])))
     [''name''] = Defined (Own (Primitive ''string''))
   \<and> resolveAttribute (attr (Collection KList (Object [(''name'', Primitive ''string'')])))
     [''size''] = Undefined"
  by (simp add: resolveAttribute_Cons attr_def read_def object_prototype_def)

subsection \<open>What the walk of getTypeAtPath can return\<close>

lemma getTypeAtPath_loop_below:
  assumes "c \<in> nodes_below root"
    and "getTypeAtPath_loop (Some c) parts = Defined (Node n)"
  shows "\<exists>m name b. n = NBlock b \<and> m \<in> nodes_below root
           \<and> own (node_block_types (Some m)) name = Some b"
  using assms
proof (induction parts arbitrary: c)
  case Nil
  then show ?case
    by (auto split: option.splits)
next
  case (Cons p ps)
  show ?case
  proof (cases "own (node_block_types (Some c)) p")
    case None
    with Cons.prems show ?thesis
      by (auto split: option.splits maybe.splits property.splits)
  next
    case (Some b)
    show ?thesis
    proof (cases "ps = []")
      case True
      with Some Cons.prems show ?thesis by auto
    next
      case False
      have "NBlock b \<in> nodes_below root"
        using Cons.prems(1) Some by (rule nodes_below.nested)
      moreover have "getTypeAtPath_loop (Some (NBlock b)) ps = Defined (Node n)"
        using Cons.prems(2) Some False by simp
      ultimately show ?thesis by (rule Cons.IH)
    qed
  qed
qed

text \<open>
  A node that \<^verbatim>\<open>getTypeAtPath\<close> returns is a block type held in the \<^verbatim>\<open>block_types\<close> of
  the resource or of a block nested in it, never the resource itself: the statement after
  the loop is reached only after a step into a nested block. Hence the branch
  \<^verbatim>\<open>"version" in attributeType\<close> of \<^verbatim>\<open>getDesiredType\<close> is never taken.
\<close>

lemma getTypeAtPath_node:
  assumes "getTypeAtPath g schema path = Inr (Defined (Node n))"
  shows "\<exists>root parts m name b.
           n = NBlock b
           \<and> getResourceAtPath g schema path = Inr (Defined (Some root, parts))
           \<and> m \<in> nodes_below root
           \<and> own (node_block_types (Some m)) name = Some b"
proof -
  from assms obtain resource parts where
    r: "getResourceAtPath g schema path = Inr (Defined (resource, parts))"
    and l: "getTypeAtPath_loop resource parts = Defined (Node n)"
    by (auto simp: getTypeAtPath_def split: sum.splits maybe.splits)
  from l obtain root where root: "resource = Some root"
    by (cases resource) auto
  have "root \<in> nodes_below root" by (rule nodes_below.root)
  moreover have "getTypeAtPath_loop (Some root) parts = Defined (Node n)"
    using l root by simp
  ultimately have "\<exists>m name b. n = NBlock b \<and> m \<in> nodes_below root
         \<and> own (node_block_types (Some m)) name = Some b"
    by (rule getTypeAtPath_loop_below)
  with r root show ?thesis by blast
qed

lemma getTypeAtPath_never_resource:
  "getTypeAtPath g schema path \<noteq> Inr (Defined (Node (NSchema s)))"
  "getTypeAtPath g schema path \<noteq> Inr (Defined (Node (NProto k)))"
  using getTypeAtPath_node [of g schema path "NSchema s"]
        getTypeAtPath_node [of g schema path "NProto k"]
  by auto

lemma version_branch_unreachable:
  assumes "getTypeAtPath g schema path = Inr r"
  shows "getDesiredType_branch r \<noteq> IsSchema"
proof
  assume "getDesiredType_branch r = IsSchema"
  then obtain n where "r = Defined (Node n)" "has_version n"
    by (auto simp: getDesiredType_branch_def split: if_splits maybe.splits resolved.splits
        attribute_type.splits)
  with assms getTypeAtPath_node [of g schema path n] show False
    by (auto simp: has_version_def)
qed

text \<open>
  Claim C10 says that every result of \<^verbatim>\<open>getTypeAtPath\<close> that is not absent is a nested
  block type, a type string or a descriptor array. With the sample schema the path
  \<^verbatim>\<open>aws.instance.ingress.constructor\<close> indexes the set of objects \<^verbatim>\<open>ingress\<close> with a name
  that is no member of the object; \<^verbatim>\<open>getTypeAtPath\<close> returns the function inherited from
  \<^verbatim>\<open>Object.prototype\<close>, and \<^verbatim>\<open>getDesiredType\<close> leaves by its last exit.
\<close>

theorem inherited_value_returned:
  "getTypeAtPath resolve_by_last_component sample_schema ''aws.instance.ingress.constructor''
     = Inr (Defined (Inherited ''constructor''))
   \<and> getDesiredType_branch (Defined (Inherited ''constructor'')) = IsBlockType
   \<and> getDesiredType resolve_by_last_component sample_scope
        ''aws.instance.ingress.constructor'' = Inr (Primitive ''dynamic'')"
  by code_simp

subsection \<open>Blocks before attributes\<close>

text \<open>
  Claim C5. At each segment of the walk of \<^verbatim>\<open>getTypeAtPath\<close> the nested blocks are
  looked up first: where the current node has the segment's name both among its
  \<^verbatim>\<open>block_types\<close> and among its \<^verbatim>\<open>attributes\<close>, the walk steps into the block, and
  the result is the same for any node with the same \<^verbatim>\<open>block_types\<close>, whatever its
  attributes are.
\<close>

theorem block_before_attribute:
  assumes "own (node_block_types cs) name = Some b"
    and "own (node_attributes cs) name = Some att"
  shows "getTypeAtPath_loop cs (name # rest) =
           (if rest = [] then Defined (Node (NBlock b))
            else getTypeAtPath_loop (Some (NBlock b)) rest)
       \<and> (node_block_types cs' = node_block_types cs \<longrightarrow>
            getTypeAtPath_loop cs' (name # rest) = getTypeAtPath_loop cs (name # rest))"
  using assms by simp

theorem block_before_attribute_witness:
  "own (node_block_types (Some (NSchema aws_instance))) ''ebs_block_device''
     = Some ebs_block_device
   \<and> own (node_attributes (Some (NSchema aws_instance))) ''ebs_block_device''
     = Some (attr (Primitive ''string''))
   \<and> getTypeAtPath_loop (Some (NSchema aws_instance)) [''ebs_block_device'']
     = Defined (Node (NBlock ebs_block_device))
   \<and> getTypeAtPath resolve_by_last_component sample_schema ''aws.instance.ebs_block_device''
     = Inr (Defined (Node (NBlock ebs_block_device)))"
proof -
  have b: "own (node_block_types (Some (NSchema aws_instance))) ''ebs_block_device''
     = Some ebs_block_device"
    by (simp add: own_def node_block_types_def node_block_def aws_instance_def)
  have a: "own (node_attributes (Some (NSchema aws_instance))) ''ebs_block_device''
     = Some (attr (Primitive ''string''))"
    by (simp add: own_def node_attributes_def node_block_def aws_instance_def)
  have r: "getResourceAtPath resolve_by_last_component sample_schema
             ''aws.instance.ebs_block_device''
           = Inr (Defined (Some (NSchema aws_instance), [''ebs_block_device'']))"
    by code_simp
  have l: "getTypeAtPath_loop (Some (NSchema aws_instance)) [''ebs_block_device'']
     = Defined (Node (NBlock ebs_block_device))"
    using block_before_attribute [OF b a, of "[]"] by simp
  show ?thesis
    using a b l r by (simp add: getTypeAtPath_def)
qed

subsection \<open>The paths of the two examples\<close>

text \<open>
  A path of two segments names a provider and a resource and nothing inside the resource,
  so \<^verbatim>\<open>aws_instance.tags\<close> and \<^verbatim>\<open>data.aws_ami.id\<close> resolve to nothing with every schema
  and every resolver: the resource key is the first segment, \<^verbatim>\<open>_\<close> and the second segment.
\<close>

lemma underscore_paths_unresolved:
  "getTypeAtPath g schema ''aws_instance.tags'' \<noteq> Inr (Defined v)"
  "getTypeAtPath g schema ''data.aws_ami.id'' \<noteq> Inr (Defined v)"
  by (auto simp: getTypeAtPath_def getResourceAtPath_def shift_def str_def endsWith_def
      Let_def split: option.splits property.splits)

text \<open>
  Claim C2, as stated: with the sample schema, which has the resource \<^verbatim>\<open>aws_instance\<close>
  with \<^verbatim>\<open>tags\<close> of type \<^verbatim>\<open>["map", "string"]\<close> and the data source \<^verbatim>\<open>aws_ami\<close> with
  \<^verbatim>\<open>id\<close> of type \<^verbatim>\<open>"string"\<close>, \<^verbatim>\<open>getTypeAtPath\<close> returns \<^verbatim>\<open>null\<close> for
  \<^verbatim>\<open>aws_instance.tags\<close> and for \<^verbatim>\<open>data.aws_ami.id\<close>, also with a resolver that maps
  every short name to the aws provider.
\<close>

theorem underscore_paths_counterexample:
  "getTypeAtPath resolve_always_aws sample_schema ''aws_instance.tags'' = Inr Null
   \<and> getTypeAtPath resolve_always_aws sample_schema ''data.aws_ami.id'' = Inr Null
   \<and> getTypeAtPath resolve_by_last_component sample_schema ''aws_instance.tags'' = Inr Null
   \<and> getTypeAtPath resolve_by_last_component sample_schema ''data.aws_ami.id'' = Inr Null"
  by code_simp

text \<open>
  Claim C2, amended. Let the resolver map the short name \<^verbatim>\<open>aws\<close> to a non-empty key of
  the schema. If the provider under that key has the resource \<^verbatim>\<open>aws_instance\<close> with an
  attribute \<^verbatim>\<open>tags\<close> of type \<^verbatim>\<open>["map", "string"]\<close> and no nested block of that name,
  \<^verbatim>\<open>getTypeAtPath\<close> returns \<^verbatim>\<open>["map", "string"]\<close> for the path \<^verbatim>\<open>aws.instance.tags\<close>; if
  it has the data source \<^verbatim>\<open>aws_ami\<close> with an attribute \<^verbatim>\<open>id\<close> of type \<^verbatim>\<open>"string"\<close>
  and no nested block of that name, \<^verbatim>\<open>getTypeAtPath\<close> returns \<^verbatim>\<open>"string"\<close> for the path
  \<^verbatim>\<open>data.aws.ami.id\<close>.
\<close>

theorem dotted_paths_resolve:
  assumes "g schema ''aws'' = Some key" and "key \<noteq> []"
    and "own (provider_schemas schema) key = Some entry"
  shows "(map_of (resource_schemas entry) ''aws_instance'' = Some resource
          \<and> own (node_block_types (Some (NSchema resource))) ''tags'' = None
          \<and> own (node_attributes (Some (NSchema resource))) ''tags'' = Some att
          \<and> type att = Collection KMap (Primitive ''string'')
          \<longrightarrow> getTypeAtPath g schema ''aws.instance.tags''
                = Inr (Defined (AttrType (Collection KMap (Primitive ''string'')))))
       \<and> (map_of (data_source_schemas entry) ''aws_ami'' = Some source
          \<and> own (node_block_types (Some (NSchema source))) ''id'' = None
          \<and> own (node_attributes (Some (NSchema source))) ''id'' = Some att'
          \<and> type att' = Primitive ''string''
          \<longrightarrow> getTypeAtPath g schema ''data.aws.ami.id''
                = Inr (Defined (AttrType (Primitive ''string''))))"
proof -
  note p = read_provider_schemas [OF assms(3)]
  have r: "getResourceAtPath g schema ''aws.instance.tags''
             = Inr (Defined (Some (NSchema resource), [''tags'']))"
    if "map_of (resource_schemas entry) ''aws_instance'' = Some resource"
    using assms(1,2) p read_own [OF that]
    by (simp add: getResourceAtPath_def shift_def str_def endsWith_def node_of_def)
  have d: "getResourceAtPath g schema ''data.aws.ami.id''
             = Inr (Defined (Some (NSchema source), [''id'']))"
    if "map_of (data_source_schemas entry) ''aws_ami'' = Some source"
    using assms(1,2) p read_own [OF that]
    by (simp add: getResourceAtPath_def shift_def str_def endsWith_def node_of_def)
  show ?thesis
    by (auto simp: getTypeAtPath_def r d)
qed

theorem dotted_paths_resolve_witness:
  "resolve_by_last_component sample_schema ''aws'' = Some aws_key \<and> aws_key \<noteq> []
   \<and> own (provider_schemas sample_schema) aws_key = Some aws_provider
   \<and> getTypeAtPath resolve_by_last_component sample_schema ''aws.instance.tags''
        = Inr (Defined (AttrType (Collection KMap (Primitive ''string''))))
   \<and> getTypeAtPath resolve_by_last_component sample_schema ''data.aws.ami.id''
        = Inr (Defined (AttrType (Primitive ''string'')))"
proof -
  have 1: "resolve_by_last_component sample_schema ''aws'' = Some aws_key"
    by code_simp
  have 2: "aws_key \<noteq> []" by (simp add: aws_key_def)
  have 3: "own (provider_schemas sample_schema) aws_key = Some aws_provider"
    by (simp add: own_def sample_schema_def)
  have 4: "map_of (resource_schemas aws_provider) ''aws_instance'' = Some aws_instance
          \<and> own (node_block_types (Some (NSchema aws_instance))) ''tags'' = None
          \<and> own (node_attributes (Some (NSchema aws_instance))) ''tags''
              = Some (attr (Collection KMap (Primitive ''string'')))
          \<and> type (attr (Collection KMap (Primitive ''string'')))
              = Collection KMap (Primitive ''string'')"
    by (simp add: own_def node_block_types_def node_attributes_def node_block_def
        aws_provider_def aws_instance_def attr_def)
  have 5: "map_of (data_source_schemas aws_provider) ''aws_ami'' = Some aws_ami
          \<and> own (node_block_types (Some (NSchema aws_ami))) ''id'' = None
          \<and> own (node_attributes (Some (NSchema aws_ami))) ''id''
              = Some (attr (Primitive ''string''))
          \<and> type (attr (Primitive ''string'')) = Primitive ''string''"
    by (simp add: own_def node_block_types_def node_attributes_def node_block_def
        aws_provider_def aws_ami_def attr_def)
  show ?thesis
    using 1 2 3 4 5
      dotted_paths_resolve [where g = resolve_by_last_component and schema = sample_schema
        and key = aws_key and entry = aws_provider
        and resource = aws_instance and source = aws_ami
        and att = "attr (Collection KMap (Primitive ''string''))"
        and att' = "attr (Primitive ''string'')"]
    by blast
qed

subsection \<open>Paths that name a provider\<close>

lemma getBlockTypeAtPath_loop_never_schema:
  "getBlockTypeAtPath_loop cs parts \<noteq> Defined (NSchema s)"
proof (induction parts arbitrary: cs)
  case Nil
  then show ?case by (simp split: option.splits)
next
  case (Cons p ps)
  then show ?case by (simp split: option.splits)
qed

text \<open>
  Claim C3, as stated: the sample schema has the provider \<^verbatim>\<open>aws\<close> with a configuration
  block; for the path \<^verbatim>\<open>aws.awsProvider\<close> \<^verbatim>\<open>getResourceAtPath\<close> returns that
  configuration with no segment left, but \<^verbatim>\<open>getBlockTypeAtPath\<close> returns \<^verbatim>\<open>null\<close>, not
  the configuration. And where the first segment is \<^verbatim>\<open>data\<close>, a provider of that name
  is not looked for: with a schema whose provider is called \<^verbatim>\<open>data\<close>,
  \<^verbatim>\<open>data.awsProvider\<close> resolves to \<^verbatim>\<open>null\<close>.
\<close>

theorem provider_suffix_counterexample:
  "getResourceAtPath resolve_by_last_component sample_schema ''aws.awsProvider''
     = Inr (Defined (Some (NSchema aws_config), []))
   \<and> getBlockTypeAtPath resolve_by_last_component sample_schema ''aws.awsProvider'' = Inr Null
   \<and> resolve_by_last_component data_named_schema ''data'' = Some ''example.com/acme/data''
   \<and> own (provider_schemas data_named_schema) ''example.com/acme/data'' = Some aws_provider
   \<and> getResourceAtPath resolve_by_last_component data_named_schema ''data.awsProvider''
     = Inr Null"
  by code_simp

text \<open>
  Claim C3, amended. For a path of two segments whose first segment is not \<^verbatim>\<open>data\<close> and
  is mapped by the resolver to a non-empty key of the schema, and whose second segment
  ends with \<^verbatim>\<open>Provider\<close>: \<^verbatim>\<open>getResourceAtPath\<close> returns the \<^verbatim>\<open>provider\<close> entry found
  under that key, with no segment left. \<^verbatim>\<open>getBlockTypeAtPath\<close> does not return that
  configuration for the path; it returns \<^verbatim>\<open>null\<close> when the configuration has no nested
  block named \<^verbatim>\<open>undefined\<close>.
\<close>

theorem provider_suffix_path:
  assumes "CHR ''.'' \<notin> set p" and "CHR ''.'' \<notin> set r" and "p \<noteq> ''data''"
    and "endsWith r ''Provider''"
    and "g schema p = Some key" and "key \<noteq> []"
    and "own (provider_schemas schema) key = Some entry"
  shows "getResourceAtPath g schema (p @ ''.'' @ r)
           = Inr (Defined (map_option NSchema (provider entry), []))
       \<and> getBlockTypeAtPath g schema (p @ ''.'' @ r) \<noteq> Inr (Defined (NSchema config))
       \<and> (own (node_block_types (map_option NSchema (provider entry))) ''undefined'' = None
            \<longrightarrow> getBlockTypeAtPath g schema (p @ ''.'' @ r) = Inr Null)"
proof -
  note e = read_provider_schemas [OF assms(7)]
  have "getResourceAtPath g schema (p @ ''.'' @ r)
          = Inr (Defined (map_option NSchema (provider entry), []))"
    using assms(1-6) e
    by (simp add: getResourceAtPath_def split_two_segments shift_def)
  then have r': "getResourceAtPath g schema (p @ CHR ''.'' # r)
                   = Inr (Defined (map_option NSchema (provider entry), []))"
    by simp
  show ?thesis
    by (simp add: r' getBlockTypeAtPath_def getBlockTypeAtPath_loop_never_schema
        split: option.splits)
qed

theorem provider_suffix_path_witness:
  "CHR ''.'' \<notin> set ''aws'' \<and> CHR ''.'' \<notin> set ''awsProvider'' \<and> ''aws'' \<noteq> ''data''
   \<and> endsWith ''awsProvider'' ''Provider''
   \<and> resolve_by_last_component sample_schema ''aws'' = Some aws_key \<and> aws_key \<noteq> []
   \<and> own (provider_schemas sample_schema) aws_key = Some aws_provider
   \<and> own (node_block_types (map_option NSchema (provider aws_provider))) ''undefined'' = None
   \<and> getResourceAtPath resolve_by_last_component sample_schema (''aws'' @ ''.'' @ ''awsProvider'')
       = Inr (Defined (Some (NSchema aws_config), []))
   \<and> getBlockTypeAtPath resolve_by_last_component sample_schema
         (''aws'' @ ''.'' @ ''awsProvider'') = Inr Null"
proof -
  have 1: "CHR ''.'' \<notin> set ''aws''" and 2: "CHR ''.'' \<notin> set ''awsProvider''"
    and 3: "''aws'' \<noteq> ''data''" and 4: "endsWith ''awsProvider'' ''Provider''"
    by (simp_all add: endsWith_def)
  have 5: "resolve_by_last_component sample_schema ''aws'' = Some aws_key"
    by code_simp
  have 6: "aws_key \<noteq> []" by (simp add: aws_key_def)
  have 7: "own (provider_schemas sample_schema) aws_key = Some aws_provider"
    by (simp add: own_def sample_schema_def)
  have 8: "own (node_block_types (map_option NSchema (provider aws_provider))) ''undefined''
             = None"
    by (simp add: own_def node_block_types_def node_block_def aws_provider_def aws_config_def)
  have 9: "provider aws_provider = Some aws_config"
    by (simp add: aws_provider_def)
  show ?thesis
    using 1 2 3 4 5 6 7 8 9
      provider_suffix_path [where g = resolve_by_last_component and schema = sample_schema
        and p = "''aws''" and r = "''awsProvider''" and key = aws_key and entry = aws_provider]
    by simp
qed

subsection \<open>The element type of a marked attribute\<close>

text \<open>
  The segments that \<^verbatim>\<open>getResourceAtPath\<close> hands on are the last segments of the path, so
  the test \<^verbatim>\<open>path.endsWith("[]")\<close> of \<^verbatim>\<open>getAttributeTypeAtPath\<close> is a test of the one
  segment that is left. A name without \<^verbatim>\<open>[\<close> followed by the marker is cleaned to the
  name.
\<close>

lemma shift_rest: "snd (shift xs) = drop 1 xs"
  by (cases xs) (simp_all add: shift_def)

lemma getResourceAtPath_parts:
  assumes "getResourceAtPath g schema path = Inr (Defined (resource, parts))"
  shows "\<exists>n. parts = drop n (split_str CHR ''.'' path)"
proof -
  define sp where "sp = split_str CHR ''.'' path"
  define sp' where "sp' = (if hd sp = ''data'' then snd (shift sp) else sp)"
  have "parts = snd (shift (snd (shift sp')))"
    using assms unfolding getResourceAtPath_def Let_def sp_def [symmetric] sp'_def
    by (auto split: if_splits option.splits prod.splits property.splits)
  then have "parts = drop (Suc (Suc 0)) sp \<or> parts = drop (Suc (Suc (Suc 0))) sp"
    by (simp add: sp'_def shift_rest split: if_splits)
  then show ?thesis
    unfolding sp_def by blast
qed

lemma suffix_last_segment:
  assumes "c \<notin> set t"
  shows "suffix t s \<longleftrightarrow> suffix t (last (split_str c s))"
proof (induction s)
  case Nil
  then show ?case by simp
next
  case (Cons x xs)
  obtain w ws where sp: "split_str c xs = w # ws"
    using split_str_nonempty [of c xs] by (cases "split_str c xs") auto
  show ?case
  proof (cases "x = c")
    case True
    then have "t \<noteq> x # xs" using assms by auto
    then show ?thesis
      using True Cons sp by (simp add: suffix_Cons)
  next
    case False
    show ?thesis
    proof (cases ws)
      case Nil
      then have "c \<notin> set xs"
        using sp split_str_single [of c xs] by simp
      then have "w = xs" using sp by (simp add: split_str_no_sep)
      then show ?thesis
        using False sp Nil by simp
    next
      case (Cons v vs)
      then have "c \<in> set xs"
        using sp split_str_single [of c xs] by auto
      then have "t \<noteq> x # xs" using assms by auto
      then show ?thesis
        using False sp Cons Cons.IH by (simp add: suffix_Cons)
    qed
  qed
qed

lemma endsWith_last_segment:
  assumes "getResourceAtPath g schema path = Inr (Defined (resource, [seg]))"
  shows "endsWith path ''[]'' \<longleftrightarrow> endsWith seg ''[]''"
proof -
  obtain n where n: "[seg] = drop n (split_str CHR ''.'' path)"
    using getResourceAtPath_parts [OF assms] by blast
  then have "n < length (split_str CHR ''.'' path)"
    by (metis drop_all linorder_not_less list.distinct(1))
  then have "last (drop n (split_str CHR ''.'' path)) = last (split_str CHR ''.'' path)"
    by (rule last_drop)
  with n have "seg = last (split_str CHR ''.'' path)"
    by (metis last.simps)
  then show ?thesis
    using suffix_last_segment [of "CHR ''.''" "''[]''" path]
    by (simp add: endsWith_suffix)
qed

lemma replace_marker: "CHR ''['' \<notin> set name \<Longrightarrow> replace ''[]'' [] (name @ ''[]'') = name"
  by (induction name) auto

text \<open>
  Claim C6. Let one segment be left after the resource, let it end with the marker
  \<^verbatim>\<open>[]\<close>, and let the segment with its first \<^verbatim>\<open>[]\<close> removed name an attribute of the
  resource. If the declared type is a descriptor \<^verbatim>\<open>[kind, element]\<close>,
  \<^verbatim>\<open>getAttributeTypeAtPath\<close> returns an attribute with the flags of the declared one and
  with the descriptor's component at index 1 as its type: the element of a list, set or
  map, the member table of an object. If the declared type is a primitive tag, the
  attribute is returned as declared, with that tag as its type.
\<close>

theorem element_type_of_marked_attribute:
  assumes "getResourceAtPath g schema path = Inr (Defined (Some root, [seg]))"
    and "endsWith seg ''[]''"
    and "own (node_attributes (Some root)) (replace ''[]'' [] seg) = Some att"
  shows "(type att = Collection k element \<longrightarrow>
            getAttributeTypeAtPath g schema path =
              Inr (Defined (Own \<lparr>type = Type element, required = required att,
                                 optional = optional att, computed = computed att\<rparr>)))
       \<and> (type att = Object members \<longrightarrow>
            getAttributeTypeAtPath g schema path =
              Inr (Defined (Own \<lparr>type = Members members, required = required att,
                                 optional = optional att, computed = computed att\<rparr>)))
       \<and> (type att = Primitive tag \<longrightarrow>
            getAttributeTypeAtPath g schema path =
              Inr (Defined (Own \<lparr>type = Type (Primitive tag), required = required att,
                                 optional = optional att, computed = computed att\<rparr>)))"
proof -
  have e: "endsWith path ''[]''"
    using assms(1,2) by (simp add: endsWith_last_segment)
  obtain b entries where b: "node_block root = Some b"
    and a: "attributes b = Some entries"
    and m: "map_of entries (replace ''[]'' [] seg) = Some att"
    using assms(3)
    by (auto simp: own_def node_attributes_def split: option.splits Option.bind_splits)
  show ?thesis
    using assms(1) e b a read_own [OF m]
    by (simp add: getAttributeTypeAtPath_def isArray_def with_type_def declared_def)
qed

theorem element_type_of_marked_attribute_witness:
  "getResourceAtPath resolve_by_last_component sample_schema ''aws.instance.tags[]''
     = Inr (Defined (Some (NSchema aws_instance), [''tags[]'']))
   \<and> endsWith ''tags[]'' ''[]''
   \<and> own (node_attributes (Some (NSchema aws_instance))) (replace ''[]'' [] ''tags[]'')
     = Some \<lparr>type = Collection KMap (Primitive ''string''), required = False,
             optional = True, computed = False\<rparr>
   \<and> getAttributeTypeAtPath resolve_by_last_component sample_schema ''aws.instance.tags[]''
     = Inr (Defined (Own \<lparr>type = Type (Primitive ''string''), required = False,
                          optional = True, computed = False\<rparr>))"
proof -
  have 1: "getResourceAtPath resolve_by_last_component sample_schema ''aws.instance.tags[]''
     = Inr (Defined (Some (NSchema aws_instance), [''tags[]'']))"
    by code_simp
  have 2: "endsWith ''tags[]'' ''[]''"
    by (simp add: endsWith_def)
  have 3: "own (node_attributes (Some (NSchema aws_instance))) (replace ''[]'' [] ''tags[]'')
     = Some \<lparr>type = Collection KMap (Primitive ''string''), required = False,
             optional = True, computed = False\<rparr>"
    by (simp add: own_def node_attributes_def node_block_def aws_instance_def attr_def)
  show ?thesis
    using 1 2 3
      element_type_of_marked_attribute [OF 1 2 3, where k = KMap
        and element = "Primitive ''string''"]
    by simp
qed

subsection \<open>Where the resolver throws\<close>

text \<open>
  The length check of \<^verbatim>\<open>getResourceAtPath\<close> comes before the \<^verbatim>\<open>data\<close> segment is
  removed. A path \<^verbatim>\<open>data.p\<close> passes it with one segment left for the provider and none
  for the resource, and when \<^verbatim>\<open>p\<close> names a provider of the schema the call
  \<^verbatim>\<open>resourceName.endsWith\<close> is made on \<^verbatim>\<open>undefined\<close>.
\<close>

lemma data_path_throws:
  assumes "CHR ''.'' \<notin> set p"
    and "g schema p = Some key" and "key \<noteq> []"
    and "own (provider_schemas schema) key = Some entry"
  shows "getResourceAtPath g schema (''data.'' @ p) = Inl TypeError"
proof -
  have "split_str CHR ''.'' (''data'' @ CHR ''.'' # p) = [''data'', p]"
    using assms(1) by (intro split_two_segments) simp_all
  then have "split_str CHR ''.'' (''data.'' @ p) = [''data'', p]"
    by simp
  then show ?thesis
    using assms(2,3) read_provider_schemas [OF assms(4)]
    by (simp add: getResourceAtPath_def shift_def)
qed

text \<open>
  Claim C1 says that no entry point ever throws. With the sample schema the path
  \<^verbatim>\<open>data.aws\<close> makes \<^verbatim>\<open>getResourceAtPath\<close> throw a \<^verbatim>\<open>TypeError\<close>, and with it
  \<^verbatim>\<open>getBlockTypeAtPath\<close>, \<^verbatim>\<open>getAttributeTypeAtPath\<close>, \<^verbatim>\<open>getTypeAtPath\<close> and
  \<^verbatim>\<open>getDesiredType\<close>; the path \<^verbatim>\<open>null.nullProvider\<close>, whose provider has no
  configuration block, makes \<^verbatim>\<open>getAttributeTypeAtPath\<close> throw.
\<close>

theorem resolution_throws:
  "getResourceAtPath resolve_by_last_component sample_schema ''data.aws'' = Inl TypeError
   \<and> getBlockTypeAtPath resolve_by_last_component sample_schema ''data.aws'' = Inl TypeError
   \<and> getAttributeTypeAtPath resolve_by_last_component sample_schema ''data.aws''
       = Inl TypeError
   \<and> getTypeAtPath resolve_by_last_component sample_schema ''data.aws'' = Inl TypeError
   \<and> getDesiredType resolve_by_last_component sample_scope ''data.aws'' = Inl TypeError
   \<and> getAttributeTypeAtPath resolve_by_last_component sample_schema ''null.nullProvider''
       = Inl TypeError"
  by code_simp

text \<open>
  \<^verbatim>\<open>getAttributeTypeAtPath\<close> answers with a value only when one segment was left, and
  with \<^verbatim>\<open>null\<close> for any other count once the resource has a block.
\<close>

lemma getAttributeTypeAtPath_one_segment:
  assumes "getAttributeTypeAtPath g schema path = Inr (Defined a)"
  shows "\<exists>resource seg. getResourceAtPath g schema path = Inr (Defined (resource, [seg]))"
proof -
  obtain resource parts where r: "getResourceAtPath g schema path = Inr (Defined (resource, parts))"
    and l: "length parts = 1"
    using assms
    by (auto simp: getAttributeTypeAtPath_def split: sum.splits maybe.splits option.splits
        if_splits)
  from l obtain seg where "parts = [seg]"
    by (cases parts) auto
  with r show ?thesis by blast
qed

lemma getAttributeTypeAtPath_segment_count:
  assumes "getResourceAtPath g schema path = Inr (Defined (Some root, parts))"
    and "node_block root = Some b" and "length parts \<noteq> 1"
  shows "getAttributeTypeAtPath g schema path = Inr Null"
  using assms by (simp add: getAttributeTypeAtPath_def)

text \<open>
  Claim C8 says that \<^verbatim>\<open>getAttributeTypeAtPath\<close> returns absent whenever the number of
  segments left after the resource is not one. For the path \<^verbatim>\<open>null.nullProvider\<close> no
  segment is left and the resource is \<^verbatim>\<open>undefined\<close>: \<^verbatim>\<open>resource.block\<close> is read before
  the count is checked and the function throws. For \<^verbatim>\<open>data.aws\<close> it does not return
  either.
\<close>

theorem attribute_lookup_throws:
  "getResourceAtPath resolve_by_last_component sample_schema ''null.nullProvider''
     = Inr (Defined (None, []))
   \<and> getAttributeTypeAtPath resolve_by_last_component sample_schema ''null.nullProvider''
     = Inl TypeError
   \<and> \<not> returns_normally
         (getAttributeTypeAtPath resolve_by_last_component sample_schema ''data.aws'')"
  by code_simp

subsection \<open>What getDesiredType returns\<close>

text \<open>
  Whenever \<^verbatim>\<open>getTypeAtPath\<close> returns, \<^verbatim>\<open>getDesiredType\<close> returns a type: \<^verbatim>\<open>"dynamic"\<close>
  for an absent result, a node, an inherited value and the empty string, the resolved type
  itself for a non-empty primitive tag and for a descriptor. It throws exactly when
  \<^verbatim>\<open>getTypeAtPath\<close> throws.
\<close>

lemma getDesiredType_classification:
  assumes "getTypeAtPath g (providerSchema sc) path = Inr r"
  shows "(absent r \<longrightarrow> getDesiredType g sc path = Inr (Primitive ''dynamic''))
       \<and> (r = Defined (Node n) \<longrightarrow> getDesiredType g sc path = Inr (Primitive ''dynamic''))
       \<and> (r = Defined (Inherited k) \<longrightarrow> getDesiredType g sc path = Inr (Primitive ''dynamic''))
       \<and> (r = Defined (AttrType (Primitive [])) \<longrightarrow>
            getDesiredType g sc path = Inr (Primitive ''dynamic''))
       \<and> (r = Defined (AttrType (Primitive s)) \<and> s \<noteq> [] \<longrightarrow>
            getDesiredType g sc path = Inr (Primitive s))
       \<and> (r = Defined (AttrType t) \<and> isArray t \<longrightarrow> getDesiredType g sc path = Inr t)"
  using assms
  by (auto simp: getDesiredType_def falsy_def absent_def isArray_def
      split: maybe.splits resolved.splits attribute_type.splits)

lemma getDesiredType_throws_iff:
  "getDesiredType g sc path = Inl e \<longleftrightarrow> getTypeAtPath g (providerSchema sc) path = Inl e"
  by (auto simp: getDesiredType_def
      split: sum.splits maybe.splits resolved.splits attribute_type.splits if_splits)

text \<open>
  Claim C7 says that \<^verbatim>\<open>getDesiredType\<close> returns a value for every scope and every path.
  With the sample schema and the path \<^verbatim>\<open>data.aws\<close> \<^verbatim>\<open>getTypeAtPath\<close> throws a
  \<^verbatim>\<open>TypeError\<close>, and \<^verbatim>\<open>getDesiredType\<close>, which does not catch it, returns nothing.
\<close>

theorem getDesiredType_throws:
  "getTypeAtPath resolve_by_last_component (providerSchema sample_scope) ''data.aws''
     = Inl TypeError
   \<and> getDesiredType resolve_by_last_component sample_scope ''data.aws'' = Inl TypeError
   \<and> \<not> returns_normally (getDesiredType resolve_by_last_component sample_scope ''data.aws'')"
  by code_simp

subsection \<open>Plain reads with inherited names\<close>

text \<open>
  The three plain reads of the resolver, each with a name of \<^verbatim>\<open>Object.prototype\<close>: the
  attribute \<^verbatim>\<open>constructor\<close> of a resource is the inherited function and is returned as
  it is; the resource key \<^verbatim>\<open>__proto__\<close> of the path \<^verbatim>\<open>._proto__.x\<close> finds the prototype,
  which has no \<^verbatim>\<open>block\<close>, so that \<^verbatim>\<open>getAttributeTypeAtPath\<close> throws and \<^verbatim>\<open>getTypeAtPath\<close>
  returns \<^verbatim>\<open>null\<close>.
\<close>

lemma plain_reads_inherited:
  "getAttributeTypeAtPath resolve_by_last_component sample_schema ''aws.instance.constructor''
     = Inr (Defined (Proto ''constructor''))"
  "getResourceAtPath resolve_always_aws sample_schema ''._proto__.x''
     = Inr (Defined (Some (NProto ''__proto__''), [''x'']))"
  "getAttributeTypeAtPath resolve_always_aws sample_schema ''._proto__.x'' = Inl TypeError"
  "getTypeAtPath resolve_always_aws sample_schema ''._proto__.x'' = Inr Null"
  by code_simp+


end
